theory Spec2Isabelle
  imports Main "HOL-Library.Sublist"
begin

section \<open>JavaScript values\<close>

text \<open>
  The API client of the front-end (\<^verbatim>\<open>lib/api\<close>) and the submit handler of the login
  form work on values that come out of \<^verbatim>\<open>JSON.parse\<close> or out of object literals.
  \<open>jsval\<close> is that universe.  The program never computes with a number: it only tests
  one for truth and turns one into a string.  So a number is given by these two
  observations: \<open>JNum nz s\<close> is a number that is non-zero exactly when \<open>nz\<close> holds and
  that ToString prints as \<open>s\<close> (\<^verbatim>\<open>1e21\<close> is \<open>JNum True ''1e+21''\<close>).  An object is the
  list of its own properties in creation order, with distinct keys.
\<close>

datatype jsval =
    JUndefined
  | JNull
  | JBool bool
  | JNum bool string
  | JStr string
  | JArr "jsval list"
  | JObj "(string \<times> jsval) list"

text \<open>ToBoolean: what \<^verbatim>\<open>!v\<close>, \<^verbatim>\<open>a || b\<close>, \<^verbatim>\<open>a && b\<close>, \<^verbatim>\<open>c ? x : y\<close> and
  \<^verbatim>\<open>filter(Boolean)\<close> test.\<close>

fun truthy :: "jsval \<Rightarrow> bool" where
  "truthy JUndefined = False"
| "truthy JNull = False"
| "truthy (JBool b) = b"
| "truthy (JNum nz s) = nz"
| "truthy (JStr s) = (s \<noteq> [])"
| "truthy (JArr xs) = True"
| "truthy (JObj kvs) = True"

definition js_or :: "jsval \<Rightarrow> jsval \<Rightarrow> jsval" where
  "js_or a b = (if truthy a then a else b)"

definition js_and :: "jsval \<Rightarrow> jsval \<Rightarrow> jsval" where
  "js_and a b = (if truthy a then b else a)"

text \<open>
  Property read \<^verbatim>\<open>v.k\<close> for the keys the program reads (\<^verbatim>\<open>error\<close>, \<^verbatim>\<open>message\<close>,
  \<^verbatim>\<open>detail\<close>, \<^verbatim>\<open>msg\<close>, \<^verbatim>\<open>access_token\<close>, \<^verbatim>\<open>refresh_token\<close>): none of them is found
  on a prototype, so a value that is not an object with that own property yields
  \<^verbatim>\<open>undefined\<close>.  The program reads a property of \<^verbatim>\<open>null\<close> or \<^verbatim>\<open>undefined\<close> only behind
  a truthiness guard or \<^verbatim>\<open>?.\<close>, where the result is \<^verbatim>\<open>undefined\<close> as well.
\<close>

fun get_prop :: "jsval \<Rightarrow> string \<Rightarrow> jsval" where
  "get_prop (JObj kvs) k = (case map_of kvs k of None \<Rightarrow> JUndefined | Some v \<Rightarrow> v)"
| "get_prop v k = JUndefined"

text \<open>The decimal digits of an HTTP status, as the template literal
  \<^verbatim>\<open>`Request failed with ${res.status}`\<close> prints it.\<close>

definition digit_char :: "nat \<Rightarrow> char" where
  "digit_char d = ''0123456789'' ! d"

fun show_nat :: "nat \<Rightarrow> string" where
  "show_nat n = (if n < 10 then [digit_char n] else show_nat (n div 10) @ [digit_char (n mod 10)])"

declare show_nat.simps [simp del]

text \<open>
  ToString, as applied by \<^verbatim>\<open>new Error(msg)\<close>, by \<^verbatim>\<open>localStorage.setItem\<close> and by
  \<^verbatim>\<open>Array.prototype.join\<close>; \<open>None\<close> when it throws a \<^verbatim>\<open>TypeError\<close>.  That happens for an
  object with an own property \<^verbatim>\<open>toString\<close>: a value from JSON is never callable, so
  the own property hides \<^verbatim>\<open>Object.prototype.toString\<close> and the conversion finds no
  primitive.  Any other object prints as \<^verbatim>\<open>[object Object]\<close>.  An array prints as its
  elements joined with a comma.  \<open>join_with sep xs\<close> is \<^verbatim>\<open>xs.join(sep)\<close>: \<^verbatim>\<open>null\<close> and
  \<^verbatim>\<open>undefined\<close> elements contribute the empty string, and the join throws when the
  conversion of an element does.
\<close>

fun to_string :: "jsval \<Rightarrow> string option"
  and join_with :: "string \<Rightarrow> jsval list \<Rightarrow> string option"
  and elem_string :: "jsval \<Rightarrow> string option"
where
  "to_string JUndefined = Some ''undefined''"
| "to_string JNull = Some ''null''"
| "to_string (JBool b) = Some (if b then ''true'' else ''false'')"
| "to_string (JNum nz s) = Some s"
| "to_string (JStr s) = Some s"
| "to_string (JArr xs) = join_with '','' xs"
| "to_string (JObj kvs) =
     (case map_of kvs ''toString'' of None \<Rightarrow> Some ''[object Object]'' | Some v \<Rightarrow> None)"
| "join_with sep [] = Some []"
| "join_with sep [x] = elem_string x"
| "join_with sep (x # y # ys) =
     (case elem_string x of
        None \<Rightarrow> None
      | Some s \<Rightarrow> (case join_with sep (y # ys) of None \<Rightarrow> None | Some r \<Rightarrow> Some (s @ sep @ r)))"
| "elem_string JUndefined = Some []"
| "elem_string JNull = Some []"
| "elem_string (JBool b) = to_string (JBool b)"
| "elem_string (JNum nz s) = to_string (JNum nz s)"
| "elem_string (JStr s) = to_string (JStr s)"
| "elem_string (JArr xs) = to_string (JArr xs)"
| "elem_string (JObj kvs) = to_string (JObj kvs)"

text \<open>\<^verbatim>\<open>s.includes(sub)\<close>: \<open>sub\<close> occurs in \<open>s\<close> as a contiguous run of characters.\<close>

fun str_includes :: "string \<Rightarrow> string \<Rightarrow> bool" where
  "str_includes [] sub = (sub = [])"
| "str_includes (c # cs) sub = (prefix sub (c # cs) \<or> str_includes cs sub)"

section \<open>Errors, responses, requests and the browser state\<close>

text \<open>
  A thrown value is an \<^verbatim>\<open>Error\<close> object.  \<open>status\<close> and \<open>data\<close> are the two properties
  \<^verbatim>\<open>apiFetch\<close> attaches; on an error they were never attached to, \<open>status\<close> is \<open>None\<close>
  and \<open>data\<close> is \<open>JUndefined\<close>.
\<close>

record js_error =
  message :: string
  status :: "nat option"
  data :: jsval

text \<open>The \<^verbatim>\<open>TypeError\<close> a failing ToString throws.  Its message is the engine's wording;
  no property proved below depends on it.\<close>

definition type_error :: js_error where
  "type_error =
     \<lparr>message = ''Cannot convert object to primitive value'', status = None, data = JUndefined\<rparr>"

text \<open>
  What \<^verbatim>\<open>fetch\<close> resolves to.  \<open>res_status\<close> is \<^verbatim>\<open>res.status\<close>, an unsigned short (at most
  65535).  \<open>res_content_type\<close> is \<^verbatim>\<open>res.headers.get('content-type')\<close> (\<open>None\<close> for
  \<^verbatim>\<open>null\<close>), \<open>res_text\<close> is what \<^verbatim>\<open>res.text()\<close> yields and \<open>res_json\<close> is the outcome of
  \<^verbatim>\<open>res.json()\<close>: the parsed value, or the error it rejects with when the body is not
  valid JSON (an empty body is not).  Reading the body as text is taken to succeed.
  \<^verbatim>\<open>res.ok\<close> is true for the statuses 200 to 299.
\<close>

record response =
  res_status :: nat
  res_content_type :: "string option"
  res_text :: string
  res_json :: "js_error + jsval"

definition res_ok :: "response \<Rightarrow> bool" where
  "res_ok res = (200 \<le> res_status res \<and> res_status res \<le> 299)"

text \<open>\<^verbatim>\<open>await fetch(...)\<close> either throws (the network failed) or yields a response.\<close>

datatype fetch_result = Rejected js_error | Resolved response

text \<open>A request body is always the text \<^verbatim>\<open>JSON.stringify(v)\<close> of some value \<open>v\<close>.\<close>

datatype body_init = JSON_stringify jsval

record options =
  opt_method :: "string option"
  opt_body :: "body_init option"
  opt_headers :: "(string \<rightharpoonup> string) option"

text \<open>A call \<^verbatim>\<open>fetch(url, init)\<close>.\<close>

record request =
  url :: string
  init :: options

text \<open>
  The browser state the program touches: \<^verbatim>\<open>localStorage\<close>, the \<^verbatim>\<open>setItem\<close> calls made so
  far (key and stored string), the \<^verbatim>\<open>fetch\<close> calls made so far, and the timers set by
  \<^verbatim>\<open>setTimeout(() => navigate(route), delay)\<close> (delay and route).
\<close>

record world =
  storage :: "string \<rightharpoonup> string"
  writes :: "(string \<times> string) list"
  requests :: "request list"
  timers :: "(nat \<times> string) list"

text \<open>
  \<^verbatim>\<open>localStorage.setItem(k, v)\<close> converts \<open>v\<close> with ToString and stores the string; when
  the conversion throws, nothing is stored and the call throws.  The storage is
  taken to accept every write (no quota).
\<close>

definition setItem :: "world \<Rightarrow> string \<Rightarrow> jsval \<Rightarrow> js_error + world" where
  "setItem w k v =
     (case to_string v of
        None \<Rightarrow> Inl type_error
      | Some s \<Rightarrow> Inr (w\<lparr>storage := (storage w)(k \<mapsto> s), writes := writes w @ [(k, s)]\<rparr>))"

section \<open>The API client\<close>

text \<open>\<^verbatim>\<open>const API_BASE = import.meta.env.VITE_API_BASE || 'http://localhost:8000'\<close>;
  \<open>env\<close> is the value of the environment variable, \<open>None\<close> when it is unset.\<close>

definition API_BASE :: "string option \<Rightarrow> string" where
  "API_BASE env =
     (case env of
        None \<Rightarrow> ''http://localhost:8000''
      | Some s \<Rightarrow> if s \<noteq> [] then s else ''http://localhost:8000'')"

definition getApiBase :: "string option \<Rightarrow> string" where
  "getApiBase env = API_BASE env"

text \<open>\<^verbatim>\<open>localStorage.getItem('access_token') || null\<close>\<close>

definition getStoredAccessToken :: "world \<Rightarrow> string option" where
  "getStoredAccessToken w =
     (case storage w ''access_token'' of
        None \<Rightarrow> None
      | Some t \<Rightarrow> if t \<noteq> [] then Some t else None)"

definition authHeaders :: "world \<Rightarrow> (string \<rightharpoonup> string)" where
  "authHeaders w =
     (case getStoredAccessToken w of
        Some token \<Rightarrow> [''Authorization'' \<mapsto> ''Bearer '' @ token]
      | None \<Rightarrow> Map.empty)"

text \<open>The headers \<^verbatim>\<open>apiFetch\<close> sends: object spread is map override, the right operand
  winning.\<close>

definition request_headers :: "world \<Rightarrow> options \<Rightarrow> (string \<rightharpoonup> string)" where
  "request_headers w opts =
     (let baseHeaders = [''Content-Type'' \<mapsto> ''application/json''] ++ authHeaders w
      in baseHeaders ++ (case opt_headers opts of None \<Rightarrow> Map.empty | Some h \<Rightarrow> h))"

text \<open>\<^verbatim>\<open>const contentType = res.headers.get('content-type') || ''\<close>\<close>

definition contentType :: "response \<Rightarrow> string" where
  "contentType res = (case res_content_type res of None \<Rightarrow> [] | Some c \<Rightarrow> c)"

text \<open>The body of a response as \<^verbatim>\<open>apiFetch\<close> reads it into \<^verbatim>\<open>data\<close>: the outcome of
  \<^verbatim>\<open>res.json()\<close>, or the wrapped outcome of \<^verbatim>\<open>res.text()\<close>.\<close>

definition read_data :: "response \<Rightarrow> js_error + jsval" where
  "read_data res =
     (if str_includes (contentType res) ''application/json'' then res_json res
      else Inr (if res_text res \<noteq> [] then JObj [(''message'', JStr (res_text res))] else JNull))"

text \<open>
  What \<^verbatim>\<open>apiFetch\<close> throws for a response that is not ok.  \<^verbatim>\<open>new Error(msg)\<close> converts
  \<open>msg\<close> with ToString; when that throws, the \<^verbatim>\<open>TypeError\<close> leaves \<^verbatim>\<open>apiFetch\<close> before
  \<open>status\<close> and \<open>data\<close> are attached.
\<close>

definition failure :: "response \<Rightarrow> jsval \<Rightarrow> js_error" where
  "failure res d =
     (let msg = js_or (js_and d (js_or (get_prop d ''error'') (get_prop d ''message'')))
                      (JStr (''Request failed with '' @ show_nat (res_status res)))
      in case to_string msg of
           None \<Rightarrow> type_error
         | Some m \<Rightarrow> \<lparr>message = m, status = Some (res_status res), data = d\<rparr>)"

text \<open>
  \<open>apiFetch env net w path opts\<close>: \<open>net\<close> is what the network answers to the one \<^verbatim>\<open>fetch\<close>
  the call makes.  The result is the thrown error (\<open>Inl\<close>) or the returned value, with the
  browser state after the call.
\<close>

definition apiFetch ::
  "string option \<Rightarrow> fetch_result \<Rightarrow> world \<Rightarrow> string \<Rightarrow> options \<Rightarrow> (js_error + jsval) \<times> world" where
  "apiFetch env net w path opts =
     (let req = \<lparr>url = API_BASE env @ path, init = opts\<lparr>opt_headers := Some (request_headers w opts)\<rparr>\<rparr>;
          w' = w\<lparr>requests := requests w @ [req]\<rparr>
      in case net of
           Rejected e \<Rightarrow> (Inl e, w')
         | Resolved res \<Rightarrow>
             (case read_data res of
                Inl e \<Rightarrow> (Inl e, w')
              | Inr d \<Rightarrow> if \<not> res_ok res then (Inl (failure res d), w') else (Inr d, w')))"

definition login ::
  "string option \<Rightarrow> fetch_result \<Rightarrow> world \<Rightarrow> string \<Rightarrow> string \<Rightarrow> string \<Rightarrow> (js_error + jsval) \<times> world" where
  "login env net w email password role =
     apiFetch env net w ''/auth/login''
       \<lparr>opt_method = Some ''POST'',
        opt_body = Some (JSON_stringify
          (JObj [(''email'', JStr email), (''password'', JStr password), (''role'', JStr role)])),
        opt_headers = None\<rparr>"

text \<open>
  \<open>storeTokens w tokenObj\<close> gives the error it throws, if any, and the browser state it
  leaves: a throwing \<^verbatim>\<open>setItem\<close> for \<^verbatim>\<open>access_token\<close> ends the call before the line for
  \<^verbatim>\<open>refresh_token\<close>; a throwing \<^verbatim>\<open>setItem\<close> for \<^verbatim>\<open>refresh_token\<close> leaves the first write
  made.
\<close>

definition storeTokens :: "world \<Rightarrow> jsval \<Rightarrow> js_error option \<times> world" where
  "storeTokens w tokenObj =
     (if \<not> truthy tokenObj then (None, w)
      else
        case (if truthy (get_prop tokenObj ''access_token'')
              then setItem w ''access_token'' (get_prop tokenObj ''access_token'') else Inr w) of
          Inl e \<Rightarrow> (Some e, w)
        | Inr w1 \<Rightarrow>
            (case (if truthy (get_prop tokenObj ''refresh_token'')
                   then setItem w1 ''refresh_token'' (get_prop tokenObj ''refresh_token'') else Inr w1) of
               Inl e \<Rightarrow> (Some e, w1)
             | Inr w2 \<Rightarrow> (None, w2)))"

definition refreshToken ::
  "string option \<Rightarrow> fetch_result \<Rightarrow> world \<Rightarrow> (js_error + jsval) \<times> world" where
  "refreshToken env net w =
     (case storage w ''refresh_token'' of
        None \<Rightarrow> (Inl \<lparr>message = ''No refresh token found'', status = None, data = JUndefined\<rparr>, w)
      | Some refresh_token \<Rightarrow>
          if refresh_token = []
          then (Inl \<lparr>message = ''No refresh token found'', status = None, data = JUndefined\<rparr>, w)
          else
            (case apiFetch env net w ''/auth/refresh''
                    \<lparr>opt_method = Some ''POST'',
                     opt_body = Some (JSON_stringify (JObj [(''refresh_token'', JStr refresh_token)])),
                     opt_headers = None\<rparr> of
               (Inl e, w1) \<Rightarrow> (Inl e, w1)
             | (Inr d, w1) \<Rightarrow>
                 (case storeTokens w1 d of
                    (Some e, w2) \<Rightarrow> (Inl e, w2)
                  | (None, w2) \<Rightarrow> (Inr d, w2))))"

definition me :: "string option \<Rightarrow> fetch_result \<Rightarrow> world \<Rightarrow> (js_error + jsval) \<times> world" where
  "me env net w =
     apiFetch env net w ''/auth/me''
       \<lparr>opt_method = Some ''GET'', opt_body = None, opt_headers = None\<rparr>"

section \<open>The login form\<close>

text \<open>The React state of the \<^verbatim>\<open>Login\<close> component; \<open>message'\<close> is its \<^verbatim>\<open>message\<close>.\<close>

record form =
  email :: string
  password :: string
  role :: string
  loading :: bool
  error :: string
  message' :: string

text \<open>The text the \<^verbatim>\<open>catch\<close> block of \<^verbatim>\<open>onSubmit\<close> computes from the caught error; \<open>None\<close>
  when the \<^verbatim>\<open>join\<close> throws.\<close>

definition catch_msg :: "js_error \<Rightarrow> string option" where
  "catch_msg err =
     (let details = get_prop (data err) ''detail''
      in case details of
           JArr ds \<Rightarrow> join_with '', '' (filter truthy (map (\<lambda>d. get_prop d ''msg'') ds))
         | _ \<Rightarrow> Some (if message err \<noteq> [] then message err else ''Login failed''))"

text \<open>The \<^verbatim>\<open>catch\<close> block: it sets the error text, or throws in turn when the \<^verbatim>\<open>join\<close>
  throws, before \<^verbatim>\<open>setError\<close> is reached.\<close>

definition catch_block :: "js_error \<Rightarrow> form \<Rightarrow> world \<Rightarrow> js_error option \<times> form \<times> world" where
  "catch_block err f w =
     (case catch_msg err of
        None \<Rightarrow> (Some type_error, f, w)
      | Some msg \<Rightarrow> (None, f\<lparr>error := msg\<rparr>, w))"

text \<open>
  \<open>onSubmit env net w f\<close> gives the error the handler ends with, if any (its promise
  rejects), the form state and the browser state.  An error thrown inside \<^verbatim>\<open>try\<close>, by
  \<^verbatim>\<open>login\<close> or by \<^verbatim>\<open>storeTokens\<close>, goes to the \<^verbatim>\<open>catch\<close> block; \<^verbatim>\<open>finally\<close> runs on every
  path.
\<close>

definition onSubmit ::
  "string option \<Rightarrow> fetch_result \<Rightarrow> world \<Rightarrow> form \<Rightarrow> js_error option \<times> form \<times> world" where
  "onSubmit env net w f =
     (let f1 = f\<lparr>error := [], message' := [], loading := True\<rparr>;
          (thrown, f2, w2) =
            (case login env net w (email f1) (password f1) (role f1) of
               (Inr res, w1) \<Rightarrow>
                 if truthy (js_and res (js_or (get_prop res ''access_token'') (get_prop res ''refresh_token'')))
                 then (case storeTokens w1 res of
                         (Some err, w') \<Rightarrow> catch_block err f1 w'
                       | (None, w') \<Rightarrow>
                           (None, f1\<lparr>message' := ''Login successful! Redirecting...''\<rparr>,
                            w'\<lparr>timers := timers w' @ [(800, ''/'')]\<rparr>))
                 else (None,
                       f1\<lparr>error := ''Login succeeded but no token returned. Please verify API response.''\<rparr>,
                       w1)
             | (Inl err, w1) \<Rightarrow> catch_block err f1 w1)
      in (thrown, f2\<lparr>loading := False\<rparr>, w2))"

section \<open>Notions used to state the properties\<close>

text \<open>The \<^verbatim>\<open>setItem\<close> calls made between the state \<open>w\<close> and the later state \<open>w'\<close>.\<close>

definition new_writes :: "world \<Rightarrow> world \<Rightarrow> (string \<times> string) list" where
  "new_writes w w' = drop (length (writes w)) (writes w')"

text \<open>The \<^verbatim>\<open>fetch\<close> calls made between the state \<open>w\<close> and the later state \<open>w'\<close>.\<close>

definition new_requests :: "world \<Rightarrow> world \<Rightarrow> request list" where
  "new_requests w w' = drop (length (requests w)) (requests w')"

text \<open>"The result (or error data)" of a call: the returned value, or the \<open>data\<close> of the
  thrown error.\<close>

definition payload :: "js_error + jsval \<Rightarrow> jsval" where
  "payload r = (case r of Inl e \<Rightarrow> data e | Inr v \<Rightarrow> v)"

text \<open>Joining strings with a separator, as one would specify it on plain strings.\<close>

fun join_strings :: "string \<Rightarrow> string list \<Rightarrow> string" where
  "join_strings sep [] = []"
| "join_strings sep [s] = s"
| "join_strings sep (s # t # ts) = s @ sep @ join_strings sep (t # ts)"

text \<open>The value \<^verbatim>\<open>apiFetch\<close> hands to \<^verbatim>\<open>new Error\<close> for the body \<open>d\<close> of a response with
  status \<open>s\<close>, written as the cascade it is: \<^verbatim>\<open>d.error\<close> if truthy, else \<^verbatim>\<open>d.message\<close> if
  truthy, else the generic text.\<close>

definition message_value :: "jsval \<Rightarrow> nat \<Rightarrow> jsval" where
  "message_value d s =
     (if truthy (get_prop d ''error'') then get_prop d ''error''
      else if truthy (get_prop d ''message'') then get_prop d ''message''
      else JStr (''Request failed with '' @ show_nat s))"

section \<open>Basic facts\<close>

lemma show_nat_422: "show_nat 422 = ''422''"
  by (simp add: show_nat.simps digit_char_def)

lemma elem_string_truthy: "truthy v \<Longrightarrow> elem_string v = to_string v"
  by (cases v) simp_all

lemma join_with_truthy:
  "\<forall>v \<in> set vs. truthy v \<Longrightarrow>
     join_with sep vs = map_option (join_strings sep) (those (map to_string vs))"
  by (induction vs rule: induct_list012)
     (auto simp: elem_string_truthy split: option.splits)

lemma str_includes_iff: "str_includes s sub \<longleftrightarrow> (\<exists>pre post. s = pre @ sub @ post)"
proof (induction s)
  case Nil
  then show ?case by auto
next
  case (Cons c cs)
  show ?case
  proof
    assume "str_includes (c # cs) sub"
    then consider "prefix sub (c # cs)" | "str_includes cs sub" by auto
    then show "\<exists>pre post. c # cs = pre @ sub @ post"
    proof cases
      case 1
      then obtain post where "c # cs = sub @ post" by (auto simp: prefix_def)
      then have "c # cs = [] @ sub @ post" by simp
      then show ?thesis by blast
    next
      case 2
      with Cons obtain pre post where "cs = pre @ sub @ post" by auto
      then have "c # cs = (c # pre) @ sub @ post" by simp
      then show ?thesis by blast
    qed
  next
    assume "\<exists>pre post. c # cs = pre @ sub @ post"
    then obtain pre post where eq: "c # cs = pre @ sub @ post" by blast
    show "str_includes (c # cs) sub"
    proof (cases pre)
      case Nil
      with eq have "prefix sub (c # cs)" by (auto simp: prefix_def)
      then show ?thesis by simp
    next
      case (Cons p ps)
      with eq have "cs = ps @ sub @ post" by simp
      with Cons.IH have "str_includes cs sub" by blast
      then show ?thesis by simp
    qed
  qed
qed

lemma storeTokens_thrown:
  "fst (storeTokens w t) =
     (if truthy t
         \<and> ((truthy (get_prop t ''access_token'') \<and> to_string (get_prop t ''access_token'') = None)
            \<or> (truthy (get_prop t ''refresh_token'') \<and> to_string (get_prop t ''refresh_token'') = None))
      then Some type_error else None)"
  by (auto simp: storeTokens_def setItem_def split: option.splits)

lemma storeTokens_writes:
  "writes (snd (storeTokens w t)) =
     writes w
     @ (if truthy t \<and> truthy (get_prop t ''access_token'')
           \<and> to_string (get_prop t ''access_token'') \<noteq> None
        then [(''access_token'', the (to_string (get_prop t ''access_token'')))] else [])
     @ (if truthy t \<and> truthy (get_prop t ''refresh_token'')
           \<and> to_string (get_prop t ''refresh_token'') \<noteq> None
           \<and> \<not> (truthy (get_prop t ''access_token'') \<and> to_string (get_prop t ''access_token'') = None)
        then [(''refresh_token'', the (to_string (get_prop t ''refresh_token'')))] else [])"
  by (auto simp: storeTokens_def setItem_def split: option.splits)

lemma new_writes_storeTokens:
  "new_writes w (snd (storeTokens w t)) =
     (if truthy t \<and> truthy (get_prop t ''access_token'')
           \<and> to_string (get_prop t ''access_token'') \<noteq> None
        then [(''access_token'', the (to_string (get_prop t ''access_token'')))] else [])
     @ (if truthy t \<and> truthy (get_prop t ''refresh_token'')
           \<and> to_string (get_prop t ''refresh_token'') \<noteq> None
           \<and> \<not> (truthy (get_prop t ''access_token'') \<and> to_string (get_prop t ''access_token'') = None)
        then [(''refresh_token'', the (to_string (get_prop t ''refresh_token'')))] else [])"
  by (simp add: new_writes_def storeTokens_writes)

lemma storeTokens_storage:
  "storage (snd (storeTokens w t)) k =
     (if k = ''refresh_token'' \<and> truthy t \<and> truthy (get_prop t ''refresh_token'')
         \<and> \<not> (truthy (get_prop t ''access_token'') \<and> to_string (get_prop t ''access_token'') = None)
         \<and> to_string (get_prop t ''refresh_token'') \<noteq> None
      then to_string (get_prop t ''refresh_token'')
      else if k = ''access_token'' \<and> truthy t \<and> truthy (get_prop t ''access_token'')
         \<and> to_string (get_prop t ''access_token'') \<noteq> None
      then to_string (get_prop t ''access_token'')
      else storage w k)"
  by (auto simp: storeTokens_def setItem_def split: option.splits)

lemma storeTokens_rest:
  "requests (snd (storeTokens w t)) = requests w \<and> timers (snd (storeTokens w t)) = timers w"
  by (auto simp: storeTokens_def setItem_def split: option.splits)

lemma apiFetch_requests:
  "requests (snd (apiFetch env net w path opts)) =
     requests w @ [\<lparr>url = API_BASE env @ path, init = opts\<lparr>opt_headers := Some (request_headers w opts)\<rparr>\<rparr>]"
  by (simp add: apiFetch_def Let_def split: fetch_result.split sum.split)

lemma apiFetch_frame:
  "storage (snd (apiFetch env net w path opts)) = storage w
   \<and> writes (snd (apiFetch env net w path opts)) = writes w
   \<and> timers (snd (apiFetch env net w path opts)) = timers w"
  by (simp add: apiFetch_def Let_def split: fetch_result.split sum.split)

lemma apiFetch_result:
  "fst (apiFetch env net w path opts) =
     (case net of
        Rejected e \<Rightarrow> Inl e
      | Resolved res \<Rightarrow>
          (case read_data res of
             Inl e \<Rightarrow> Inl e
           | Inr d \<Rightarrow> if res_ok res then Inr d else Inl (failure res d)))"
  by (simp add: apiFetch_def Let_def split: fetch_result.split sum.split)

lemma falsy_prop: "\<not> truthy d \<Longrightarrow> get_prop d k = JUndefined"
  by (cases d) simp_all

lemma failure_eq:
  "failure res d =
     (case to_string (message_value d (res_status res)) of
        None \<Rightarrow> type_error
      | Some m \<Rightarrow> \<lparr>message = m, status = Some (res_status res), data = d\<rparr>)"
  by (cases "truthy d")
     (simp_all add: failure_def message_value_def js_or_def js_and_def Let_def falsy_prop)

lemma login_result:
  "fst (login env net w e p r) =
     (case net of
        Rejected e \<Rightarrow> Inl e
      | Resolved res \<Rightarrow>
          (case read_data res of
             Inl e \<Rightarrow> Inl e
           | Inr d \<Rightarrow> if res_ok res then Inr d else Inl (failure res d)))"
  unfolding login_def by (rule apiFetch_result)

lemma catch_msg_eq:
  "catch_msg err =
     (case get_prop (data err) ''detail'' of
        JArr ds \<Rightarrow>
          map_option (join_strings '', '')
            (those (map to_string (filter truthy (map (\<lambda>d. get_prop d ''msg'') ds))))
      | _ \<Rightarrow> Some (if message err \<noteq> [] then message err else ''Login failed''))"
  by (simp add: catch_msg_def Let_def join_with_truthy split: jsval.split)

lemma onSubmit_loading: "loading (fst (snd (onSubmit env net w f))) = False"
  by (simp add: onSubmit_def Let_def split: prod.split)

lemma onSubmit_on_raise:
  "fst (login env net w (email f) (password f) (role f)) = Inl err \<Longrightarrow>
     fst (onSubmit env net w f) = (case catch_msg err of None \<Rightarrow> Some type_error | Some m \<Rightarrow> None)
     \<and> error (fst (snd (onSubmit env net w f))) = (case catch_msg err of None \<Rightarrow> [] | Some m \<Rightarrow> m)"
  by (cases "login env net w (email f) (password f) (role f)")
     (simp add: onSubmit_def catch_block_def Let_def split: option.split)

lemma refreshToken_absent:
  "storage w ''refresh_token'' = None \<or> storage w ''refresh_token'' = Some [] \<Longrightarrow>
     refreshToken env net w =
       (Inl \<lparr>message = ''No refresh token found'', status = None, data = JUndefined\<rparr>, w)"
  by (auto simp: refreshToken_def)

lemma refreshToken_present:
  "storage w ''refresh_token'' = Some t \<Longrightarrow> t \<noteq> [] \<Longrightarrow>
     refreshToken env net w =
       (case apiFetch env net w ''/auth/refresh''
               \<lparr>opt_method = Some ''POST'',
                opt_body = Some (JSON_stringify (JObj [(''refresh_token'', JStr t)])),
                opt_headers = None\<rparr> of
          (Inl e, w1) \<Rightarrow> (Inl e, w1)
        | (Inr d, w1) \<Rightarrow>
            (case storeTokens w1 d of
               (Some e, w2) \<Rightarrow> (Inl e, w2)
             | (None, w2) \<Rightarrow> (Inr d, w2)))"
  by (simp add: refreshToken_def)

section \<open>Token persistence\<close>



text \<open>
  C9. Presence of a token field is decided by truthiness, not by the key being there:
  whenever the \<^verbatim>\<open>access_token\<close> field of the argument is the empty string, no
  \<^verbatim>\<open>setItem\<close> call is made for \<^verbatim>\<open>access_token\<close> and the value stored under it stays; the
  same holds for \<^verbatim>\<open>refresh_token\<close>.  \<^verbatim>\<open>storeTokens({access_token: ""})\<close> returns the
  browser state unchanged.
\<close>

theorem storeTokens_empty_string_not_written:
  "(get_prop t ''access_token'' = JStr [] \<longrightarrow>
      ''access_token'' \<notin> fst ` set (new_writes w (snd (storeTokens w t)))
      \<and> storage (snd (storeTokens w t)) ''access_token'' = storage w ''access_token'')
   \<and> (get_prop t ''refresh_token'' = JStr [] \<longrightarrow>
      ''refresh_token'' \<notin> fst ` set (new_writes w (snd (storeTokens w t)))
      \<and> storage (snd (storeTokens w t)) ''refresh_token'' = storage w ''refresh_token'')
   \<and> storeTokens w (JObj [(''access_token'', JStr [])]) = (None, w)"
proof -
  have a: "''access_token'' \<notin> fst ` set (new_writes w (snd (storeTokens w t)))
      \<and> storage (snd (storeTokens w t)) ''access_token'' = storage w ''access_token''"
    if "get_prop t ''access_token'' = JStr []"
    using that by (auto simp: new_writes_storeTokens storeTokens_storage)
  have r: "''refresh_token'' \<notin> fst ` set (new_writes w (snd (storeTokens w t)))
      \<and> storage (snd (storeTokens w t)) ''refresh_token'' = storage w ''refresh_token''"
    if "get_prop t ''refresh_token'' = JStr []"
    using that by (auto simp: new_writes_storeTokens storeTokens_storage)
  have e: "storeTokens w (JObj [(''access_token'', JStr [])]) = (None, w)"
    by (simp add: storeTokens_def)
  from a r e show ?thesis by blast
qed

theorem storeTokens_empty_string_not_written_witness:
  "get_prop (JObj [(''access_token'', JStr []), (''refresh_token'', JStr ''r'')]) ''access_token'' = JStr []
   \<and> get_prop (JObj [(''access_token'', JStr ''a''), (''refresh_token'', JStr [])]) ''refresh_token'' = JStr []
   \<and> ''access_token'' \<notin> fst ` set (new_writes
        \<lparr>storage = [''access_token'' \<mapsto> ''old''], writes = [], requests = [], timers = []\<rparr>
        (snd (storeTokens \<lparr>storage = [''access_token'' \<mapsto> ''old''], writes = [], requests = [], timers = []\<rparr>
           (JObj [(''access_token'', JStr []), (''refresh_token'', JStr ''r'')]))))
   \<and> storage (snd (storeTokens \<lparr>storage = [''access_token'' \<mapsto> ''old''], writes = [], requests = [], timers = []\<rparr>
           (JObj [(''access_token'', JStr []), (''refresh_token'', JStr ''r'')]))) ''access_token''
       = Some ''old''
   \<and> storage (snd (storeTokens \<lparr>storage = [''refresh_token'' \<mapsto> ''old''], writes = [], requests = [], timers = []\<rparr>
           (JObj [(''access_token'', JStr ''a''), (''refresh_token'', JStr [])]))) ''refresh_token''
       = Some ''old''"
  using storeTokens_empty_string_not_written
    [of "JObj [(''access_token'', JStr []), (''refresh_token'', JStr ''r'')]"
        "\<lparr>storage = [''access_token'' \<mapsto> ''old''], writes = [], requests = [], timers = []\<rparr>"]
    storeTokens_empty_string_not_written
    [of "JObj [(''access_token'', JStr ''a''), (''refresh_token'', JStr [])]"
        "\<lparr>storage = [''refresh_token'' \<mapsto> ''old''], writes = [], requests = [], timers = []\<rparr>"]
  by simp

section \<open>Request headers\<close>

text \<open>
  C5. Every \<^verbatim>\<open>apiFetch\<close> call makes exactly one \<^verbatim>\<open>fetch\<close> call, to the base address
  followed by the path, with the caller's options and these headers: a header the
  caller supplied has the caller's value; otherwise \<^verbatim>\<open>Authorization\<close> is
  \<^verbatim>\<open>Bearer <token>\<close> exactly when a (non-empty) access token is in the storage and absent
  when none is, \<^verbatim>\<open>Content-Type\<close> is \<^verbatim>\<open>application/json\<close>, and there is no other header.
\<close>

theorem apiFetch_request_headers:
  "new_requests w (snd (apiFetch env net w path opts)) =
     [\<lparr>url = API_BASE env @ path, init = opts\<lparr>opt_headers := Some (request_headers w opts)\<rparr>\<rparr>]
   \<and> request_headers w opts k =
       (case (case opt_headers opts of None \<Rightarrow> None | Some h \<Rightarrow> h k) of
          Some v \<Rightarrow> Some v
        | None \<Rightarrow>
            if k = ''Authorization'' \<and> storage w ''access_token'' \<noteq> None
               \<and> storage w ''access_token'' \<noteq> Some []
            then Some (''Bearer '' @ the (storage w ''access_token''))
            else if k = ''Content-Type'' then Some ''application/json'' else None)"
proof -
  have sent: "new_requests w (snd (apiFetch env net w path opts)) =
     [\<lparr>url = API_BASE env @ path, init = opts\<lparr>opt_headers := Some (request_headers w opts)\<rparr>\<rparr>]"
    unfolding new_requests_def apiFetch_requests by simp
  have merged: "request_headers w opts k =
       (case (case opt_headers opts of None \<Rightarrow> None | Some h \<Rightarrow> h k) of
          Some v \<Rightarrow> Some v
        | None \<Rightarrow>
            if k = ''Authorization'' \<and> storage w ''access_token'' \<noteq> None
               \<and> storage w ''access_token'' \<noteq> Some []
            then Some (''Bearer '' @ the (storage w ''access_token''))
            else if k = ''Content-Type'' then Some ''application/json'' else None)"
    by (auto simp: request_headers_def authHeaders_def getStoredAccessToken_def Let_def map_add_def
             split: option.splits)
  from sent merged show ?thesis by blast
qed

section \<open>Reading the response\<close>

text \<open>
  C10. Whether the body is read as JSON is decided by \<^verbatim>\<open>application/json\<close> occurring
  somewhere inside the content-type header.  With the header
  \<^verbatim>\<open>application/json; charset=utf-8\<close> the body is read with \<^verbatim>\<open>res.json()\<close>, and the
  parsed value is what a call with status 200 returns; with no content-type header
  the body is read as text, whatever \<^verbatim>\<open>res.json()\<close> would have given.
\<close>

theorem apiFetch_json_by_substring:
  "read_data res =
     (if \<exists>pre post. res_content_type res = Some (pre @ ''application/json'' @ post)
      then res_json res
      else Inr (if res_text res \<noteq> [] then JObj [(''message'', JStr (res_text res))] else JNull))
   \<and> read_data (res\<lparr>res_content_type := Some ''application/json; charset=utf-8''\<rparr>) = res_json res
   \<and> fst (apiFetch env
         (Resolved (res\<lparr>res_status := 200, res_content_type := Some ''application/json; charset=utf-8'',
                       res_json := Inr v\<rparr>))
         w path opts) = Inr v
   \<and> payload (fst (apiFetch env (Resolved (res\<lparr>res_content_type := None\<rparr>)) w path opts)) =
       (if res_text res \<noteq> [] then JObj [(''message'', JStr (res_text res))] else JNull)"
proof -
  have decide: "str_includes (contentType res) ''application/json'' \<longleftrightarrow>
      (\<exists>pre post. res_content_type res = Some (pre @ ''application/json'' @ post))"
    by (cases "res_content_type res") (auto simp: contentType_def str_includes_iff)
  have general: "read_data res =
     (if \<exists>pre post. res_content_type res = Some (pre @ ''application/json'' @ post)
      then res_json res
      else Inr (if res_text res \<noteq> [] then JObj [(''message'', JStr (res_text res))] else JNull))"
    unfolding read_data_def decide by simp
  have charset:
    "read_data (res\<lparr>res_content_type := Some ''application/json; charset=utf-8''\<rparr>) = res_json res"
    by (simp add: read_data_def contentType_def)
  have with_params: "fst (apiFetch env
         (Resolved (res\<lparr>res_status := 200, res_content_type := Some ''application/json; charset=utf-8'',
                       res_json := Inr v\<rparr>))
         w path opts) = Inr v"
    unfolding apiFetch_result by (simp add: read_data_def contentType_def res_ok_def)
  have missing: "read_data (res\<lparr>res_content_type := None\<rparr>) =
      Inr (if res_text res \<noteq> [] then JObj [(''message'', JStr (res_text res))] else JNull)"
    by (simp add: read_data_def contentType_def)
  have no_header: "payload (fst (apiFetch env (Resolved (res\<lparr>res_content_type := None\<rparr>)) w path opts)) =
       (if res_text res \<noteq> [] then JObj [(''message'', JStr (res_text res))] else JNull)"
    unfolding apiFetch_result
    by (simp add: missing payload_def failure_eq message_value_def)
  from general charset with_params no_header show ?thesis by blast
qed

text \<open>
  C2, as the claim states it, fails: a response with status 201, content-type
  \<^verbatim>\<open>application/json\<close> and a body that is not JSON has no parsed value to return;
  \<^verbatim>\<open>res.json()\<close> rejects and \<^verbatim>\<open>apiFetch\<close> raises that error instead of returning.
\<close>

theorem apiFetch_json_body_not_returned:
  "str_includes
     (contentType \<lparr>res_status = 201, res_content_type = Some ''application/json'', res_text = ''Created'',
        res_json = Inl \<lparr>message = ''Unexpected token C in JSON at position 0'', status = None,
                       data = JUndefined\<rparr>\<rparr>)
     ''application/json''
   \<and> res_ok \<lparr>res_status = 201, res_content_type = Some ''application/json'', res_text = ''Created'',
        res_json = Inl \<lparr>message = ''Unexpected token C in JSON at position 0'', status = None,
                       data = JUndefined\<rparr>\<rparr>
   \<and> fst (apiFetch None
        (Resolved \<lparr>res_status = 201, res_content_type = Some ''application/json'', res_text = ''Created'',
           res_json = Inl \<lparr>message = ''Unexpected token C in JSON at position 0'', status = None,
                          data = JUndefined\<rparr>\<rparr>)
        \<lparr>storage = Map.empty, writes = [], requests = [], timers = []\<rparr> ''/auth/login''
        \<lparr>opt_method = Some ''POST'', opt_body = None, opt_headers = None\<rparr>)
     = Inl \<lparr>message = ''Unexpected token C in JSON at position 0'', status = None, data = JUndefined\<rparr>"
  unfolding apiFetch_result by (simp add: res_ok_def read_data_def contentType_def)

text \<open>
  C2, amended. The body is interpreted by content-type.  When the content-type
  indicates JSON and the body parses, the parsed value is returned unchanged for a
  success status; for any other status it is the \<open>data\<close> of the raised error, provided
  the error could be built (the message value taken from it has a string form;
  otherwise the \<^verbatim>\<open>TypeError\<close> of the conversion is raised, which carries no data).  When
  the body does not parse, the error of \<^verbatim>\<open>res.json()\<close> is raised.  When the content-type
  does not indicate JSON, an error is raised exactly for the non-success statuses,
  and the result (or error data) is \<^verbatim>\<open>{message: <text>}\<close> for a non-empty text body and
  \<^verbatim>\<open>null\<close> for an empty one.
\<close>

theorem apiFetch_body_by_content_type:
  "(str_includes (contentType res) ''application/json'' \<and> res_json res = Inr v \<longrightarrow>
      (res_ok res \<longrightarrow> fst (apiFetch env (Resolved res) w path opts) = Inr v)
      \<and> (\<not> res_ok res \<and> to_string (message_value v (res_status res)) \<noteq> None \<longrightarrow>
           (\<exists>e. fst (apiFetch env (Resolved res) w path opts) = Inl e \<and> data e = v))
      \<and> (\<not> res_ok res \<and> to_string (message_value v (res_status res)) = None \<longrightarrow>
           (\<exists>e. fst (apiFetch env (Resolved res) w path opts) = Inl e \<and> data e = JUndefined)))
   \<and> (str_includes (contentType res) ''application/json'' \<and> res_json res = Inl err \<longrightarrow>
      fst (apiFetch env (Resolved res) w path opts) = Inl err)
   \<and> (\<not> str_includes (contentType res) ''application/json'' \<and> res_text res \<noteq> [] \<longrightarrow>
      (isl (fst (apiFetch env (Resolved res) w path opts)) \<longleftrightarrow> \<not> res_ok res)
      \<and> payload (fst (apiFetch env (Resolved res) w path opts)) = JObj [(''message'', JStr (res_text res))])
   \<and> (\<not> str_includes (contentType res) ''application/json'' \<and> res_text res = [] \<longrightarrow>
      (isl (fst (apiFetch env (Resolved res) w path opts)) \<longleftrightarrow> \<not> res_ok res)
      \<and> payload (fst (apiFetch env (Resolved res) w path opts)) = JNull)"
proof -
  have parsed: "(res_ok res \<longrightarrow> fst (apiFetch env (Resolved res) w path opts) = Inr v)
      \<and> (\<not> res_ok res \<and> to_string (message_value v (res_status res)) \<noteq> None \<longrightarrow>
           (\<exists>e. fst (apiFetch env (Resolved res) w path opts) = Inl e \<and> data e = v))
      \<and> (\<not> res_ok res \<and> to_string (message_value v (res_status res)) = None \<longrightarrow>
           (\<exists>e. fst (apiFetch env (Resolved res) w path opts) = Inl e \<and> data e = JUndefined))"
    if "str_includes (contentType res) ''application/json'' \<and> res_json res = Inr v"
    using that unfolding apiFetch_result
    by (auto simp: read_data_def failure_eq type_error_def)
  have unparsed: "fst (apiFetch env (Resolved res) w path opts) = Inl err"
    if "str_includes (contentType res) ''application/json'' \<and> res_json res = Inl err"
    using that unfolding apiFetch_result by (simp add: read_data_def)
  have wrapped: "(isl (fst (apiFetch env (Resolved res) w path opts)) \<longleftrightarrow> \<not> res_ok res)
      \<and> payload (fst (apiFetch env (Resolved res) w path opts)) = JObj [(''message'', JStr (res_text res))]"
    if "\<not> str_includes (contentType res) ''application/json'' \<and> res_text res \<noteq> []"
    using that unfolding apiFetch_result
    by (simp add: read_data_def payload_def failure_eq message_value_def)
  have empty: "(isl (fst (apiFetch env (Resolved res) w path opts)) \<longleftrightarrow> \<not> res_ok res)
      \<and> payload (fst (apiFetch env (Resolved res) w path opts)) = JNull"
    if "\<not> str_includes (contentType res) ''application/json'' \<and> res_text res = []"
    using that unfolding apiFetch_result
    by (simp add: read_data_def payload_def failure_eq message_value_def)
  from parsed unparsed wrapped empty show ?thesis by blast
qed

theorem apiFetch_body_by_content_type_witness:
  "str_includes (contentType \<lparr>res_status = 200, res_content_type = Some ''application/json'',
        res_text = ''[true]'', res_json = Inr (JArr [JBool True])\<rparr>) ''application/json''
   \<and> fst (apiFetch None (Resolved \<lparr>res_status = 200, res_content_type = Some ''application/json'',
        res_text = ''[true]'', res_json = Inr (JArr [JBool True])\<rparr>)
        \<lparr>storage = Map.empty, writes = [], requests = [], timers = []\<rparr> ''/auth/me''
        \<lparr>opt_method = Some ''GET'', opt_body = None, opt_headers = None\<rparr>) = Inr (JArr [JBool True])
   \<and> \<not> res_ok \<lparr>res_status = 404, res_content_type = Some ''application/json'',
        res_text = ''[true]'', res_json = Inr (JArr [JBool True])\<rparr>
   \<and> to_string (message_value (JArr [JBool True]) 404) \<noteq> None
   \<and> payload (fst (apiFetch None (Resolved \<lparr>res_status = 404, res_content_type = Some ''application/json'',
        res_text = ''[true]'', res_json = Inr (JArr [JBool True])\<rparr>)
        \<lparr>storage = Map.empty, writes = [], requests = [], timers = []\<rparr> ''/auth/me''
        \<lparr>opt_method = Some ''GET'', opt_body = None, opt_headers = None\<rparr>)) = JArr [JBool True]
   \<and> to_string (message_value (JObj [(''error'', JObj [(''toString'', JBool True)])]) 400) = None
   \<and> payload (fst (apiFetch None (Resolved \<lparr>res_status = 400, res_content_type = Some ''application/json'',
        res_text = [], res_json = Inr (JObj [(''error'', JObj [(''toString'', JBool True)])])\<rparr>)
        \<lparr>storage = Map.empty, writes = [], requests = [], timers = []\<rparr> ''/auth/me''
        \<lparr>opt_method = Some ''GET'', opt_body = None, opt_headers = None\<rparr>)) = JUndefined
   \<and> \<not> str_includes (contentType \<lparr>res_status = 500, res_content_type = Some ''text/plain'',
        res_text = ''oops'', res_json = Inr JNull\<rparr>) ''application/json''
   \<and> payload (fst (apiFetch None (Resolved \<lparr>res_status = 500, res_content_type = Some ''text/plain'',
        res_text = ''oops'', res_json = Inr JNull\<rparr>)
        \<lparr>storage = Map.empty, writes = [], requests = [], timers = []\<rparr> ''/auth/me''
        \<lparr>opt_method = Some ''GET'', opt_body = None, opt_headers = None\<rparr>))
       = JObj [(''message'', JStr ''oops'')]
   \<and> payload (fst (apiFetch None (Resolved \<lparr>res_status = 204, res_content_type = None,
        res_text = [], res_json = Inr JUndefined\<rparr>)
        \<lparr>storage = Map.empty, writes = [], requests = [], timers = []\<rparr> ''/auth/me''
        \<lparr>opt_method = Some ''GET'', opt_body = None, opt_headers = None\<rparr>)) = JNull"
  using
    apiFetch_body_by_content_type
      [where res = "\<lparr>res_status = 200, res_content_type = Some ''application/json'',
        res_text = ''[true]'', res_json = Inr (JArr [JBool True])\<rparr>" and v = "JArr [JBool True]"
        and env = None and w = "\<lparr>storage = Map.empty, writes = [], requests = [], timers = []\<rparr>"
        and path = "''/auth/me''"
        and opts = "\<lparr>opt_method = Some ''GET'', opt_body = None, opt_headers = None\<rparr>"]
    apiFetch_body_by_content_type
      [where res = "\<lparr>res_status = 404, res_content_type = Some ''application/json'',
        res_text = ''[true]'', res_json = Inr (JArr [JBool True])\<rparr>" and v = "JArr [JBool True]"
        and env = None and w = "\<lparr>storage = Map.empty, writes = [], requests = [], timers = []\<rparr>"
        and path = "''/auth/me''"
        and opts = "\<lparr>opt_method = Some ''GET'', opt_body = None, opt_headers = None\<rparr>"]
    apiFetch_body_by_content_type
      [where res = "\<lparr>res_status = 400, res_content_type = Some ''application/json'',
        res_text = [], res_json = Inr (JObj [(''error'', JObj [(''toString'', JBool True)])])\<rparr>"
        and v = "JObj [(''error'', JObj [(''toString'', JBool True)])]"
        and env = None and w = "\<lparr>storage = Map.empty, writes = [], requests = [], timers = []\<rparr>"
        and path = "''/auth/me''"
        and opts = "\<lparr>opt_method = Some ''GET'', opt_body = None, opt_headers = None\<rparr>"]
    apiFetch_body_by_content_type
      [where res = "\<lparr>res_status = 500, res_content_type = Some ''text/plain'',
        res_text = ''oops'', res_json = Inr JNull\<rparr>"
        and env = None and w = "\<lparr>storage = Map.empty, writes = [], requests = [], timers = []\<rparr>"
        and path = "''/auth/me''"
        and opts = "\<lparr>opt_method = Some ''GET'', opt_body = None, opt_headers = None\<rparr>"]
    apiFetch_body_by_content_type
      [where res = "\<lparr>res_status = 204, res_content_type = None,
        res_text = [], res_json = Inr JUndefined\<rparr>"
        and env = None and w = "\<lparr>storage = Map.empty, writes = [], requests = [], timers = []\<rparr>"
        and path = "''/auth/me''"
        and opts = "\<lparr>opt_method = Some ''GET'', opt_body = None, opt_headers = None\<rparr>"]
  by (auto simp: contentType_def res_ok_def payload_def message_value_def)

section \<open>Success and failure statuses\<close>

text \<open>
  C6, as the claim states it, fails: a response with status 200, content-type
  \<^verbatim>\<open>application/json\<close> and an empty body makes \<^verbatim>\<open>res.json()\<close> reject, and \<^verbatim>\<open>apiFetch\<close>
  raises that error although the status is a success status.
\<close>

theorem apiFetch_success_status_raises:
  "res_ok \<lparr>res_status = 200, res_content_type = Some ''application/json'', res_text = [],
         res_json = Inl \<lparr>message = ''Unexpected end of JSON input'', status = None, data = JUndefined\<rparr>\<rparr>
   \<and> fst (apiFetch None
        (Resolved \<lparr>res_status = 200, res_content_type = Some ''application/json'', res_text = [],
           res_json = Inl \<lparr>message = ''Unexpected end of JSON input'', status = None, data = JUndefined\<rparr>\<rparr>)
        \<lparr>storage = Map.empty, writes = [], requests = [], timers = []\<rparr> ''/auth/me''
        \<lparr>opt_method = Some ''GET'', opt_body = None, opt_headers = None\<rparr>)
     = Inl \<lparr>message = ''Unexpected end of JSON input'', status = None, data = JUndefined\<rparr>"
  unfolding apiFetch_result by (simp add: res_ok_def read_data_def contentType_def)

text \<open>
  C6, amended. For every response with a success status, \<^verbatim>\<open>apiFetch\<close> hands on what
  reading the body gave: for a JSON content-type the outcome of \<^verbatim>\<open>res.json()\<close>, which is
  returned as it is (it may be \<^verbatim>\<open>null\<close>) when the body parsed and raised when it did
  not; for any other content-type it raises nothing and returns \<^verbatim>\<open>{message: <text>}\<close>
  or \<^verbatim>\<open>null\<close>.  So no error is raised whatever the parsed value is.
\<close>

theorem apiFetch_success_returns_data:
  "res_ok res \<Longrightarrow>
     fst (apiFetch env (Resolved res) w path opts) =
       (if str_includes (contentType res) ''application/json'' then res_json res
        else Inr (if res_text res \<noteq> [] then JObj [(''message'', JStr (res_text res))] else JNull))"
  unfolding apiFetch_result by (simp add: read_data_def split: sum.split)

theorem apiFetch_success_returns_data_witness:
  "res_ok \<lparr>res_status = 200, res_content_type = Some ''application/json'', res_text = ''null'',
         res_json = Inr JNull\<rparr>
   \<and> fst (apiFetch None
        (Resolved \<lparr>res_status = 200, res_content_type = Some ''application/json'', res_text = ''null'',
           res_json = Inr JNull\<rparr>)
        \<lparr>storage = Map.empty, writes = [], requests = [], timers = []\<rparr> ''/auth/me''
        \<lparr>opt_method = Some ''GET'', opt_body = None, opt_headers = None\<rparr>) = Inr JNull"
  using apiFetch_success_returns_data
    [of "\<lparr>res_status = 200, res_content_type = Some ''application/json'', res_text = ''null'',
           res_json = Inr JNull\<rparr>"
        None "\<lparr>storage = Map.empty, writes = [], requests = [], timers = []\<rparr>" "''/auth/me''"
        "\<lparr>opt_method = Some ''GET'', opt_body = None, opt_headers = None\<rparr>"]
  by (simp add: res_ok_def contentType_def)

text \<open>
  C1, as the claim states it, fails: a response with status 502, content-type
  \<^verbatim>\<open>application/json\<close> and a body that is not JSON makes \<^verbatim>\<open>res.json()\<close> reject, and the
  error \<^verbatim>\<open>apiFetch\<close> raises is that rejection, whose \<open>status\<close> is not 502.
\<close>

theorem apiFetch_failure_without_status:
  "\<not> res_ok \<lparr>res_status = 502, res_content_type = Some ''application/json'', res_text = ''Bad Gateway'',
         res_json = Inl \<lparr>message = ''Unexpected token B in JSON at position 0'', status = None,
                        data = JUndefined\<rparr>\<rparr>
   \<and> fst (apiFetch None
        (Resolved \<lparr>res_status = 502, res_content_type = Some ''application/json'', res_text = ''Bad Gateway'',
           res_json = Inl \<lparr>message = ''Unexpected token B in JSON at position 0'', status = None,
                          data = JUndefined\<rparr>\<rparr>)
        \<lparr>storage = Map.empty, writes = [], requests = [], timers = []\<rparr> ''/auth/me''
        \<lparr>opt_method = Some ''GET'', opt_body = None, opt_headers = None\<rparr>)
     = Inl \<lparr>message = ''Unexpected token B in JSON at position 0'', status = None, data = JUndefined\<rparr>
   \<and> status \<lparr>message = ''Unexpected token B in JSON at position 0'', status = None, data = JUndefined\<rparr>
       \<noteq> Some 502"
  unfolding apiFetch_result by (simp add: res_ok_def read_data_def contentType_def)
text \<open>
  C1, amended. For every response with a non-success status whose body was read into
  \<open>d\<close>, \<^verbatim>\<open>apiFetch\<close> raises an error with \<open>status\<close> the HTTP status, \<open>data\<close> the parsed
  body \<open>d\<close>, and as message the string form of \<^verbatim>\<open>d.error\<close> if that is truthy, else of
  \<^verbatim>\<open>d.message\<close> if that is truthy, else \<^verbatim>\<open>Request failed with <status>\<close>, provided that
  value has a string form; a non-empty string is its own string form.  When the
  value has none (ToString throws), the error raised is the one of the conversion,
  with no status and no data.  When reading the body fails, the error of the read is
  what is raised.  (A status is an unsigned short, printed in plain decimal.)
\<close>

theorem apiFetch_failure_error:
  "\<not> res_ok res \<Longrightarrow> res_status res \<le> 65535 \<Longrightarrow>
     (\<forall>d. read_data res = Inr d \<longrightarrow>
        (\<forall>m. to_string (message_value d (res_status res)) = Some m \<longrightarrow>
           fst (apiFetch env (Resolved res) w path opts) =
             Inl \<lparr>message = m, status = Some (res_status res), data = d\<rparr>)
        \<and> (to_string (message_value d (res_status res)) = None \<longrightarrow>
             (\<exists>e. fst (apiFetch env (Resolved res) w path opts) = Inl e
                  \<and> status e = None \<and> data e = JUndefined))
        \<and> (\<forall>s. s \<noteq> [] \<and> get_prop d ''error'' = JStr s \<longrightarrow>
              fst (apiFetch env (Resolved res) w path opts) =
                Inl \<lparr>message = s, status = Some (res_status res), data = d\<rparr>)
        \<and> (\<forall>s. s \<noteq> [] \<and> \<not> truthy (get_prop d ''error'') \<and> get_prop d ''message'' = JStr s \<longrightarrow>
              fst (apiFetch env (Resolved res) w path opts) =
                Inl \<lparr>message = s, status = Some (res_status res), data = d\<rparr>)
        \<and> (\<not> truthy (get_prop d ''error'') \<and> \<not> truthy (get_prop d ''message'') \<longrightarrow>
              fst (apiFetch env (Resolved res) w path opts) =
                Inl \<lparr>message = ''Request failed with '' @ show_nat (res_status res),
                     status = Some (res_status res), data = d\<rparr>))
     \<and> (\<forall>e. read_data res = Inl e \<longrightarrow> fst (apiFetch env (Resolved res) w path opts) = Inl e)"
proof -
  assume bad: "\<not> res_ok res"
  have raised: "fst (apiFetch env (Resolved res) w path opts) = Inl (failure res d)"
    if "read_data res = Inr d" for d
    unfolding apiFetch_result using bad that by simp
  have unread: "fst (apiFetch env (Resolved res) w path opts) = Inl e" if "read_data res = Inl e" for e
    unfolding apiFetch_result using that by simp
  show ?thesis
  proof (intro conjI allI impI)
    fix d m assume "read_data res = Inr d" and "to_string (message_value d (res_status res)) = Some m"
    then show "fst (apiFetch env (Resolved res) w path opts) =
             Inl \<lparr>message = m, status = Some (res_status res), data = d\<rparr>"
      using raised [of d] by (simp add: failure_eq)
  next
    fix d assume "read_data res = Inr d" and "to_string (message_value d (res_status res)) = None"
    then have "fst (apiFetch env (Resolved res) w path opts) = Inl type_error"
      using raised [of d] by (simp add: failure_eq)
    then show "\<exists>e. fst (apiFetch env (Resolved res) w path opts) = Inl e
                  \<and> status e = None \<and> data e = JUndefined"
      by (simp add: type_error_def)
  next
    fix d s assume "read_data res = Inr d" and "s \<noteq> [] \<and> get_prop d ''error'' = JStr s"
    then show "fst (apiFetch env (Resolved res) w path opts) =
                Inl \<lparr>message = s, status = Some (res_status res), data = d\<rparr>"
      using raised [of d] by (simp add: failure_eq message_value_def)
  next
    fix d s assume "read_data res = Inr d"
      and "s \<noteq> [] \<and> \<not> truthy (get_prop d ''error'') \<and> get_prop d ''message'' = JStr s"
    then show "fst (apiFetch env (Resolved res) w path opts) =
                Inl \<lparr>message = s, status = Some (res_status res), data = d\<rparr>"
      using raised [of d] by (simp add: failure_eq message_value_def)
  next
    fix d assume "read_data res = Inr d"
      and "\<not> truthy (get_prop d ''error'') \<and> \<not> truthy (get_prop d ''message'')"
    then show "fst (apiFetch env (Resolved res) w path opts) =
                Inl \<lparr>message = ''Request failed with '' @ show_nat (res_status res),
                     status = Some (res_status res), data = d\<rparr>"
      using raised [of d] by (simp add: failure_eq message_value_def)
  next
    fix e assume "read_data res = Inl e"
    then show "fst (apiFetch env (Resolved res) w path opts) = Inl e"
      by (rule unread)
  qed
qed

theorem apiFetch_failure_error_witness:
  "\<not> res_ok \<lparr>res_status = 422, res_content_type = Some ''application/json'', res_text = [],
         res_json = Inr (JObj [(''detail'', JArr [JObj [(''msg'', JStr ''bad email'')]])])\<rparr>
   \<and> res_status \<lparr>res_status = 422, res_content_type = Some ''application/json'', res_text = [],
         res_json = Inr (JObj [(''detail'', JArr [JObj [(''msg'', JStr ''bad email'')]])])\<rparr> \<le> 65535
   \<and> fst (apiFetch None
        (Resolved \<lparr>res_status = 422, res_content_type = Some ''application/json'', res_text = [],
           res_json = Inr (JObj [(''detail'', JArr [JObj [(''msg'', JStr ''bad email'')]])])\<rparr>)
        \<lparr>storage = Map.empty, writes = [], requests = [], timers = []\<rparr> ''/auth/login''
        \<lparr>opt_method = Some ''POST'', opt_body = None, opt_headers = None\<rparr>)
     = Inl \<lparr>message = ''Request failed with 422'', status = Some 422,
            data = JObj [(''detail'', JArr [JObj [(''msg'', JStr ''bad email'')]])]\<rparr>
   \<and> \<not> res_ok \<lparr>res_status = 401, res_content_type = Some ''application/json'', res_text = [],
         res_json = Inr (JObj [(''error'', JStr ''Invalid credentials''), (''message'', JStr ''other'')])\<rparr>
   \<and> fst (apiFetch None
        (Resolved \<lparr>res_status = 401, res_content_type = Some ''application/json'', res_text = [],
           res_json = Inr (JObj [(''error'', JStr ''Invalid credentials''), (''message'', JStr ''other'')])\<rparr>)
        \<lparr>storage = Map.empty, writes = [], requests = [], timers = []\<rparr> ''/auth/login''
        \<lparr>opt_method = Some ''POST'', opt_body = None, opt_headers = None\<rparr>)
     = Inl \<lparr>message = ''Invalid credentials'', status = Some 401,
            data = JObj [(''error'', JStr ''Invalid credentials''), (''message'', JStr ''other'')]\<rparr>
   \<and> to_string (message_value (JObj [(''error'', JNum True ''1e+21'')]) 400) = Some ''1e+21''
   \<and> fst (apiFetch None
        (Resolved \<lparr>res_status = 400, res_content_type = Some ''application/json'', res_text = [],
           res_json = Inr (JObj [(''error'', JNum True ''1e+21'')])\<rparr>)
        \<lparr>storage = Map.empty, writes = [], requests = [], timers = []\<rparr> ''/auth/login''
        \<lparr>opt_method = Some ''POST'', opt_body = None, opt_headers = None\<rparr>)
     = Inl \<lparr>message = ''1e+21'', status = Some 400, data = JObj [(''error'', JNum True ''1e+21'')]\<rparr>
   \<and> to_string (message_value (JObj [(''error'', JObj [(''toString'', JNum True ''1'')])]) 400) = None
   \<and> status (projl (fst (apiFetch None
        (Resolved \<lparr>res_status = 400, res_content_type = Some ''application/json'', res_text = [],
           res_json = Inr (JObj [(''error'', JObj [(''toString'', JNum True ''1'')])])\<rparr>)
        \<lparr>storage = Map.empty, writes = [], requests = [], timers = []\<rparr> ''/auth/login''
        \<lparr>opt_method = Some ''POST'', opt_body = None, opt_headers = None\<rparr>))) = None"
  using
    apiFetch_failure_error
      [where res = "\<lparr>res_status = 422, res_content_type = Some ''application/json'', res_text = [],
           res_json = Inr (JObj [(''detail'', JArr [JObj [(''msg'', JStr ''bad email'')]])])\<rparr>"
         and env = None and w = "\<lparr>storage = Map.empty, writes = [], requests = [], timers = []\<rparr>"
         and path = "''/auth/login''"
         and opts = "\<lparr>opt_method = Some ''POST'', opt_body = None, opt_headers = None\<rparr>"]
    apiFetch_failure_error
      [where res = "\<lparr>res_status = 401, res_content_type = Some ''application/json'', res_text = [],
           res_json = Inr (JObj [(''error'', JStr ''Invalid credentials''), (''message'', JStr ''other'')])\<rparr>"
         and env = None and w = "\<lparr>storage = Map.empty, writes = [], requests = [], timers = []\<rparr>"
         and path = "''/auth/login''"
         and opts = "\<lparr>opt_method = Some ''POST'', opt_body = None, opt_headers = None\<rparr>"]
    apiFetch_failure_error
      [where res = "\<lparr>res_status = 400, res_content_type = Some ''application/json'', res_text = [],
           res_json = Inr (JObj [(''error'', JNum True ''1e+21'')])\<rparr>"
         and env = None and w = "\<lparr>storage = Map.empty, writes = [], requests = [], timers = []\<rparr>"
         and path = "''/auth/login''"
         and opts = "\<lparr>opt_method = Some ''POST'', opt_body = None, opt_headers = None\<rparr>"]
    apiFetch_failure_error
      [where res = "\<lparr>res_status = 400, res_content_type = Some ''application/json'', res_text = [],
           res_json = Inr (JObj [(''error'', JObj [(''toString'', JNum True ''1'')])])\<rparr>"
         and env = None and w = "\<lparr>storage = Map.empty, writes = [], requests = [], timers = []\<rparr>"
         and path = "''/auth/login''"
         and opts = "\<lparr>opt_method = Some ''POST'', opt_body = None, opt_headers = None\<rparr>"]
  by (auto simp: res_ok_def read_data_def contentType_def show_nat_422 message_value_def)

section \<open>Token refresh\<close>

text \<open>
  C4. With no refresh token in the storage (no entry, or the empty string),
  \<^verbatim>\<open>refreshToken\<close> raises \<^verbatim>\<open>No refresh token found\<close> and leaves the browser state as it
  is: no \<^verbatim>\<open>fetch\<close> call is made.  With a refresh token \<open>t\<close> in the storage it makes one
  \<^verbatim>\<open>fetch\<close> call, a POST to the base address followed by \<^verbatim>\<open>/auth/refresh\<close> whose body is
  \<^verbatim>\<open>JSON.stringify({refresh_token: t})\<close>.  When the answer has a success status and its
  body reads as \<open>d\<close>, the storage and the writes are those of \<^verbatim>\<open>storeTokens(d)\<close>, and
  \<open>d\<close> is returned once \<^verbatim>\<open>storeTokens\<close> has completed; it completes whenever the two
  token fields of \<open>d\<close> have a string form, as those of a token pair have.  (Should
  \<^verbatim>\<open>storeTokens\<close> throw, its error is raised instead.)
\<close>

theorem refreshToken_behaviour:
  "((storage w ''refresh_token'' = None \<or> storage w ''refresh_token'' = Some []) \<longrightarrow>
      fst (refreshToken env net w) =
        Inl \<lparr>message = ''No refresh token found'', status = None, data = JUndefined\<rparr>
      \<and> snd (refreshToken env net w) = w
      \<and> new_requests w (snd (refreshToken env net w)) = [])
   \<and> (storage w ''refresh_token'' = Some t \<and> t \<noteq> [] \<longrightarrow>
      new_requests w (snd (refreshToken env net w)) =
        [\<lparr>url = API_BASE env @ ''/auth/refresh'',
          init = \<lparr>opt_method = Some ''POST'',
                  opt_body = Some (JSON_stringify (JObj [(''refresh_token'', JStr t)])),
                  opt_headers = Some (request_headers w
                    \<lparr>opt_method = Some ''POST'',
                     opt_body = Some (JSON_stringify (JObj [(''refresh_token'', JStr t)])),
                     opt_headers = None\<rparr>)\<rparr>\<rparr>]
      \<and> (\<forall>res d. net = Resolved res \<and> res_ok res \<and> read_data res = Inr d \<longrightarrow>
            storage (snd (refreshToken env net w)) = storage (snd (storeTokens w d))
            \<and> new_writes w (snd (refreshToken env net w)) = new_writes w (snd (storeTokens w d))
            \<and> fst (refreshToken env net w) =
                (case fst (storeTokens w d) of None \<Rightarrow> Inr d | Some e \<Rightarrow> Inl e)
            \<and> (to_string (get_prop d ''access_token'') \<noteq> None
                \<and> to_string (get_prop d ''refresh_token'') \<noteq> None \<longrightarrow>
                  fst (refreshToken env net w) = Inr d)))"
proof -
  let ?opts = "\<lparr>opt_method = Some ''POST'',
                opt_body = Some (JSON_stringify (JObj [(''refresh_token'', JStr t)])),
                opt_headers = None\<rparr>"
  let ?call = "apiFetch env net w ''/auth/refresh'' ?opts"
  have absent: "fst (refreshToken env net w) =
        Inl \<lparr>message = ''No refresh token found'', status = None, data = JUndefined\<rparr>
      \<and> snd (refreshToken env net w) = w
      \<and> new_requests w (snd (refreshToken env net w)) = []"
    if "storage w ''refresh_token'' = None \<or> storage w ''refresh_token'' = Some []"
    using refreshToken_absent [OF that, of env net] by (simp add: new_requests_def)
  have present: "new_requests w (snd (refreshToken env net w)) =
        [\<lparr>url = API_BASE env @ ''/auth/refresh'', init = \<lparr>opt_method = Some ''POST'',
                  opt_body = Some (JSON_stringify (JObj [(''refresh_token'', JStr t)])),
                  opt_headers = Some (request_headers w ?opts)\<rparr>\<rparr>]
      \<and> (\<forall>res d. net = Resolved res \<and> res_ok res \<and> read_data res = Inr d \<longrightarrow>
            storage (snd (refreshToken env net w)) = storage (snd (storeTokens w d))
            \<and> new_writes w (snd (refreshToken env net w)) = new_writes w (snd (storeTokens w d))
            \<and> fst (refreshToken env net w) =
                (case fst (storeTokens w d) of None \<Rightarrow> Inr d | Some e \<Rightarrow> Inl e)
            \<and> (to_string (get_prop d ''access_token'') \<noteq> None
                \<and> to_string (get_prop d ''refresh_token'') \<noteq> None \<longrightarrow>
                  fst (refreshToken env net w) = Inr d))"
    if t: "storage w ''refresh_token'' = Some t" "t \<noteq> []"
  proof -
    obtain r w1 where call: "?call = (r, w1)" by (cases ?call)
    have w1_req: "requests w1 = requests w @ [\<lparr>url = API_BASE env @ ''/auth/refresh'',
        init = ?opts\<lparr>opt_headers := Some (request_headers w ?opts)\<rparr>\<rparr>]"
      using apiFetch_requests [of env net w "''/auth/refresh''" ?opts] call by simp
    have w1_frame: "storage w1 = storage w" "writes w1 = writes w"
      using apiFetch_frame [of env net w "''/auth/refresh''" ?opts] call by simp_all
    have r_eq: "r = (case net of Rejected e \<Rightarrow> Inl e | Resolved res \<Rightarrow>
          (case read_data res of Inl e \<Rightarrow> Inl e
           | Inr d \<Rightarrow> if res_ok res then Inr d else Inl (failure res d)))"
      using apiFetch_result [of env net w "''/auth/refresh''" ?opts] call by simp
    have rt: "refreshToken env net w =
        (case r of Inl e \<Rightarrow> (Inl e, w1)
         | Inr d \<Rightarrow> (case fst (storeTokens w1 d) of
                       Some e \<Rightarrow> (Inl e, snd (storeTokens w1 d))
                     | None \<Rightarrow> (Inr d, snd (storeTokens w1 d))))"
      using refreshToken_present [OF t, of env net] call
      by (simp split: sum.split prod.split option.split)
    have reqs: "requests (snd (refreshToken env net w)) = requests w1"
      unfolding rt by (simp add: storeTokens_rest split: sum.split option.split)
    have sent: "new_requests w (snd (refreshToken env net w)) =
        [\<lparr>url = API_BASE env @ ''/auth/refresh'', init = \<lparr>opt_method = Some ''POST'',
                  opt_body = Some (JSON_stringify (JObj [(''refresh_token'', JStr t)])),
                  opt_headers = Some (request_headers w ?opts)\<rparr>\<rparr>]"
      unfolding new_requests_def reqs w1_req by simp
    have ok: "storage (snd (refreshToken env net w)) = storage (snd (storeTokens w d))
            \<and> new_writes w (snd (refreshToken env net w)) = new_writes w (snd (storeTokens w d))
            \<and> fst (refreshToken env net w) =
                (case fst (storeTokens w d) of None \<Rightarrow> Inr d | Some e \<Rightarrow> Inl e)
            \<and> (to_string (get_prop d ''access_token'') \<noteq> None
                \<and> to_string (get_prop d ''refresh_token'') \<noteq> None \<longrightarrow>
                  fst (refreshToken env net w) = Inr d)"
      if "net = Resolved res" "res_ok res" "read_data res = Inr d" for res d
    proof -
      from that r_eq have "r = Inr d" by simp
      with rt have after: "snd (refreshToken env net w) = snd (storeTokens w1 d)"
        and result: "fst (refreshToken env net w) =
          (case fst (storeTokens w1 d) of None \<Rightarrow> Inr d | Some e \<Rightarrow> Inl e)"
        by (simp_all split: option.split)
      have same_throw: "fst (storeTokens w1 d) = fst (storeTokens w d)"
        by (simp add: storeTokens_thrown)
      have same_storage: "storage (snd (storeTokens w1 d)) = storage (snd (storeTokens w d))"
        by (rule ext) (auto simp: storeTokens_storage w1_frame)
      have same_writes: "writes (snd (storeTokens w1 d)) = writes (snd (storeTokens w d))"
        by (simp add: storeTokens_writes w1_frame)
      have completes: "fst (storeTokens w d) = None"
        if "to_string (get_prop d ''access_token'') \<noteq> None
                \<and> to_string (get_prop d ''refresh_token'') \<noteq> None"
        using that by (simp add: storeTokens_thrown)
      from after result same_throw same_storage same_writes completes show ?thesis
        by (simp add: new_writes_def)
    qed
    from sent ok show ?thesis by blast
  qed
  from absent present show ?thesis by blast
qed

theorem refreshToken_behaviour_witness:
  "storage \<lparr>storage = Map.empty, writes = [], requests = [], timers = []\<rparr> ''refresh_token'' = None
   \<and> fst (refreshToken None
        (Resolved \<lparr>res_status = 200, res_content_type = Some ''application/json'', res_text = [],
           res_json = Inr (JObj [(''access_token'', JStr ''A1''), (''refresh_token'', JStr ''R1'')])\<rparr>)
        \<lparr>storage = Map.empty, writes = [], requests = [], timers = []\<rparr>)
       = Inl \<lparr>message = ''No refresh token found'', status = None, data = JUndefined\<rparr>
   \<and> requests (snd (refreshToken None
        (Resolved \<lparr>res_status = 200, res_content_type = Some ''application/json'', res_text = [],
           res_json = Inr (JObj [(''access_token'', JStr ''A1''), (''refresh_token'', JStr ''R1'')])\<rparr>)
        \<lparr>storage = Map.empty, writes = [], requests = [], timers = []\<rparr>)) = []
   \<and> storage \<lparr>storage = [''refresh_token'' \<mapsto> ''R0''], writes = [], requests = [], timers = []\<rparr>
        ''refresh_token'' = Some ''R0''
   \<and> fst (refreshToken None
        (Resolved \<lparr>res_status = 200, res_content_type = Some ''application/json'', res_text = [],
           res_json = Inr (JObj [(''access_token'', JStr ''A1''), (''refresh_token'', JStr ''R1'')])\<rparr>)
        \<lparr>storage = [''refresh_token'' \<mapsto> ''R0''], writes = [], requests = [], timers = []\<rparr>)
       = Inr (JObj [(''access_token'', JStr ''A1''), (''refresh_token'', JStr ''R1'')])
   \<and> storage (snd (refreshToken None
        (Resolved \<lparr>res_status = 200, res_content_type = Some ''application/json'', res_text = [],
           res_json = Inr (JObj [(''access_token'', JStr ''A1''), (''refresh_token'', JStr ''R1'')])\<rparr>)
        \<lparr>storage = [''refresh_token'' \<mapsto> ''R0''], writes = [], requests = [], timers = []\<rparr>))
        ''refresh_token'' = Some ''R1''
   \<and> map (\<lambda>r. (url r, opt_method (init r), opt_body (init r)))
        (requests (snd (refreshToken None
        (Resolved \<lparr>res_status = 200, res_content_type = Some ''application/json'', res_text = [],
           res_json = Inr (JObj [(''access_token'', JStr ''A1''), (''refresh_token'', JStr ''R1'')])\<rparr>)
        \<lparr>storage = [''refresh_token'' \<mapsto> ''R0''], writes = [], requests = [], timers = []\<rparr>)))
       = [(''http://localhost:8000/auth/refresh'', Some ''POST'',
           Some (JSON_stringify (JObj [(''refresh_token'', JStr ''R0'')])))]
   \<and> isl (fst (refreshToken None
        (Resolved \<lparr>res_status = 200, res_content_type = Some ''application/json'', res_text = [],
           res_json = Inr (JObj [(''access_token'', JStr ''A1''),
                                 (''refresh_token'', JObj [(''toString'', JBool True)])])\<rparr>)
        \<lparr>storage = [''refresh_token'' \<mapsto> ''R0''], writes = [], requests = [], timers = []\<rparr>))
   \<and> new_writes \<lparr>storage = [''refresh_token'' \<mapsto> ''R0''], writes = [], requests = [], timers = []\<rparr>
        (snd (refreshToken None
        (Resolved \<lparr>res_status = 200, res_content_type = Some ''application/json'', res_text = [],
           res_json = Inr (JObj [(''access_token'', JStr ''A1''),
                                 (''refresh_token'', JObj [(''toString'', JBool True)])])\<rparr>)
        \<lparr>storage = [''refresh_token'' \<mapsto> ''R0''], writes = [], requests = [], timers = []\<rparr>))
       = [(''access_token'', ''A1'')]"
  using
    refreshToken_behaviour
      [where w = "\<lparr>storage = [''refresh_token'' \<mapsto> ''R0''], writes = [], requests = [], timers = []\<rparr>"
         and t = "''R0''" and env = None and net = "Resolved \<lparr>res_status = 200, res_content_type = Some ''application/json'', res_text = [],
             res_json = Inr (JObj [(''access_token'', JStr ''A1''),
                                   (''refresh_token'', JObj [(''toString'', JBool True)])])\<rparr>"]
    refreshToken_behaviour
      [where w = "\<lparr>storage = Map.empty, writes = [], requests = [], timers = []\<rparr>" and env = None
         and t = "''R0''" and net = "Resolved \<lparr>res_status = 200, res_content_type = Some ''application/json'', res_text = [],
             res_json = Inr (JObj [(''access_token'', JStr ''A1''), (''refresh_token'', JStr ''R1'')])\<rparr>"]
    refreshToken_behaviour
      [where w = "\<lparr>storage = [''refresh_token'' \<mapsto> ''R0''], writes = [], requests = [], timers = []\<rparr>"
         and t = "''R0''" and env = None and net = "Resolved \<lparr>res_status = 200, res_content_type = Some ''application/json'', res_text = [],
             res_json = Inr (JObj [(''access_token'', JStr ''A1''), (''refresh_token'', JStr ''R1'')])\<rparr>"]
  by (simp add: new_requests_def res_ok_def read_data_def contentType_def storeTokens_storage
        storeTokens_thrown new_writes_storeTokens API_BASE_def)

text \<open>
  C8. When the \<^verbatim>\<open>apiFetch\<close> call to the refresh path raises \<open>e\<close>, \<^verbatim>\<open>refreshToken\<close> raises
  \<open>e\<close>, no \<^verbatim>\<open>setItem\<close> call was made and the storage is as it was: \<^verbatim>\<open>storeTokens\<close> is
  reached only after \<^verbatim>\<open>apiFetch\<close> has returned.  This is so in particular when the
  network fails and when the answer has a non-success status.
\<close>

theorem refreshToken_failure_no_write:
  "(storage w ''refresh_token'' = Some t \<and> t \<noteq> [] \<and>
      fst (apiFetch env net w ''/auth/refresh''
             \<lparr>opt_method = Some ''POST'',
              opt_body = Some (JSON_stringify (JObj [(''refresh_token'', JStr t)])),
              opt_headers = None\<rparr>) = Inl e \<longrightarrow>
      fst (refreshToken env net w) = Inl e
      \<and> new_writes w (snd (refreshToken env net w)) = []
      \<and> storage (snd (refreshToken env net w)) = storage w)
   \<and> (net = Rejected e \<longrightarrow>
      isl (fst (refreshToken env net w))
      \<and> new_writes w (snd (refreshToken env net w)) = []
      \<and> storage (snd (refreshToken env net w)) = storage w)
   \<and> (net = Resolved res \<and> \<not> res_ok res \<longrightarrow>
      isl (fst (refreshToken env net w))
      \<and> new_writes w (snd (refreshToken env net w)) = []
      \<and> storage (snd (refreshToken env net w)) = storage w)"
proof -
  have post: "fst (refreshToken env net w) = Inl e'
      \<and> new_writes w (snd (refreshToken env net w)) = []
      \<and> storage (snd (refreshToken env net w)) = storage w"
    if t: "storage w ''refresh_token'' = Some t'" "t' \<noteq> []"
      and fails: "fst (apiFetch env net w ''/auth/refresh''
             \<lparr>opt_method = Some ''POST'',
              opt_body = Some (JSON_stringify (JObj [(''refresh_token'', JStr t')])),
              opt_headers = None\<rparr>) = Inl e'" for t' e'
  proof -
    let ?opts = "\<lparr>opt_method = Some ''POST'',
              opt_body = Some (JSON_stringify (JObj [(''refresh_token'', JStr t')])),
              opt_headers = None\<rparr>"
    obtain r w1 where call: "apiFetch env net w ''/auth/refresh'' ?opts = (r, w1)"
      by (cases "apiFetch env net w ''/auth/refresh'' ?opts")
    have frame: "storage w1 = storage w" "writes w1 = writes w"
      using apiFetch_frame [of env net w "''/auth/refresh''" ?opts] call by simp_all
    from call fails have "r = Inl e'" by simp
    with call have "refreshToken env net w = (Inl e', w1)"
      using refreshToken_present [OF t, of env net] by simp
    with frame show ?thesis by (simp add: new_writes_def)
  qed
  have fetch_fails: "isl (fst (refreshToken env net w))
      \<and> new_writes w (snd (refreshToken env net w)) = []
      \<and> storage (snd (refreshToken env net w)) = storage w"
    if raises: "\<And>path opts. isl (fst (apiFetch env net w path opts))"
  proof (cases "storage w ''refresh_token'' = None \<or> storage w ''refresh_token'' = Some []")
    case True
    then show ?thesis
      using refreshToken_absent [of w env net] by (simp add: new_writes_def)
  next
    case False
    then obtain t' where t': "storage w ''refresh_token'' = Some t'" "t' \<noteq> []" by auto
    from raises obtain e' where "fst (apiFetch env net w ''/auth/refresh''
             \<lparr>opt_method = Some ''POST'',
              opt_body = Some (JSON_stringify (JObj [(''refresh_token'', JStr t')])),
              opt_headers = None\<rparr>) = Inl e'"
      by (meson isl_def)
    from post [OF t' this] show ?thesis by simp
  qed
  have network: "isl (fst (refreshToken env net w))
      \<and> new_writes w (snd (refreshToken env net w)) = []
      \<and> storage (snd (refreshToken env net w)) = storage w"
    if "net = Rejected e"
    using that by (intro fetch_fails) (simp add: apiFetch_result)
  have bad_status: "isl (fst (refreshToken env net w))
      \<and> new_writes w (snd (refreshToken env net w)) = []
      \<and> storage (snd (refreshToken env net w)) = storage w"
    if "net = Resolved res \<and> \<not> res_ok res"
    using that by (intro fetch_fails) (simp add: apiFetch_result split: sum.split)
  have first: "storage w ''refresh_token'' = Some t \<and> t \<noteq> [] \<and>
      fst (apiFetch env net w ''/auth/refresh''
             \<lparr>opt_method = Some ''POST'',
              opt_body = Some (JSON_stringify (JObj [(''refresh_token'', JStr t)])),
              opt_headers = None\<rparr>) = Inl e \<longrightarrow>
      fst (refreshToken env net w) = Inl e
      \<and> new_writes w (snd (refreshToken env net w)) = []
      \<and> storage (snd (refreshToken env net w)) = storage w"
    using post [of t e] by blast
  from first network bad_status show ?thesis by blast
qed

theorem refreshToken_failure_no_write_witness:
  "storage \<lparr>storage = [''refresh_token'' \<mapsto> ''R0''], writes = [], requests = [], timers = []\<rparr>
        ''refresh_token'' = Some ''R0''
   \<and> fst (apiFetch None
        (Resolved \<lparr>res_status = 401, res_content_type = Some ''application/json'', res_text = [],
           res_json = Inr (JObj [(''access_token'', JStr ''A1''), (''error'', JStr ''expired'')])\<rparr>)
        \<lparr>storage = [''refresh_token'' \<mapsto> ''R0''], writes = [], requests = [], timers = []\<rparr>
        ''/auth/refresh''
        \<lparr>opt_method = Some ''POST'',
         opt_body = Some (JSON_stringify (JObj [(''refresh_token'', JStr ''R0'')])),
         opt_headers = None\<rparr>)
       = Inl \<lparr>message = ''expired'', status = Some 401,
              data = JObj [(''access_token'', JStr ''A1''), (''error'', JStr ''expired'')]\<rparr>
   \<and> fst (refreshToken None
        (Resolved \<lparr>res_status = 401, res_content_type = Some ''application/json'', res_text = [],
           res_json = Inr (JObj [(''access_token'', JStr ''A1''), (''error'', JStr ''expired'')])\<rparr>)
        \<lparr>storage = [''refresh_token'' \<mapsto> ''R0''], writes = [], requests = [], timers = []\<rparr>)
       = Inl \<lparr>message = ''expired'', status = Some 401,
              data = JObj [(''access_token'', JStr ''A1''), (''error'', JStr ''expired'')]\<rparr>
   \<and> writes (snd (refreshToken None
        (Resolved \<lparr>res_status = 401, res_content_type = Some ''application/json'', res_text = [],
           res_json = Inr (JObj [(''access_token'', JStr ''A1''), (''error'', JStr ''expired'')])\<rparr>)
        \<lparr>storage = [''refresh_token'' \<mapsto> ''R0''], writes = [], requests = [], timers = []\<rparr>)) = []
   \<and> storage (snd (refreshToken None
        (Resolved \<lparr>res_status = 401, res_content_type = Some ''application/json'', res_text = [],
           res_json = Inr (JObj [(''access_token'', JStr ''A1''), (''error'', JStr ''expired'')])\<rparr>)
        \<lparr>storage = [''refresh_token'' \<mapsto> ''R0''], writes = [], requests = [], timers = []\<rparr>))
        ''access_token'' = None
   \<and> writes (snd (refreshToken None
        (Rejected \<lparr>message = ''Failed to fetch'', status = None, data = JUndefined\<rparr>)
        \<lparr>storage = [''refresh_token'' \<mapsto> ''R0''], writes = [], requests = [], timers = []\<rparr>)) = []"
proof -
  let ?res = "\<lparr>res_status = 401, res_content_type = Some ''application/json'', res_text = [],
           res_json = Inr (JObj [(''access_token'', JStr ''A1''), (''error'', JStr ''expired'')])\<rparr>"
  let ?w = "\<lparr>storage = [''refresh_token'' \<mapsto> ''R0''], writes = [], requests = [], timers = []\<rparr>"
  let ?e = "\<lparr>message = ''expired'', status = Some 401,
              data = JObj [(''access_token'', JStr ''A1''), (''error'', JStr ''expired'')]\<rparr>"
  let ?n = "\<lparr>message = ''Failed to fetch'', status = None, data = JUndefined\<rparr>"
  have fails: "fst (apiFetch None (Resolved ?res) ?w ''/auth/refresh''
        \<lparr>opt_method = Some ''POST'',
         opt_body = Some (JSON_stringify (JObj [(''refresh_token'', JStr ''R0'')])),
         opt_headers = None\<rparr>) = Inl ?e"
    unfolding apiFetch_result
    by (simp add: res_ok_def read_data_def contentType_def failure_eq message_value_def)
  show ?thesis
    using
      refreshToken_failure_no_write
        [where env = None and net = "Resolved ?res" and w = ?w and t = "''R0''" and e = ?e and res = ?res]
      refreshToken_failure_no_write
        [where env = None and net = "Rejected ?n" and w = ?w and t = "''R0''" and e = ?n and res = ?res]
      fails
    by (simp add: new_writes_def)
qed

section \<open>The submit handler of the login form\<close>

text \<open>
  C7. When \<^verbatim>\<open>login\<close> raises an error whose \<^verbatim>\<open>data.detail\<close> is a list, the form's error
  text is the join, with \<^verbatim>\<open>", "\<close>, of the \<^verbatim>\<open>msg\<close> values of its elements (those that
  have one: falsy values are left out), each in its string form; otherwise it is the
  error's own message, or \<^verbatim>\<open>Login failed\<close> when that is empty.  (Should a \<^verbatim>\<open>msg\<close> have no
  string form, the join throws, no text is set and the handler ends with that
  error.)  A rejection with status 422 and body
  \<^verbatim>\<open>{detail: [{msg: "value is not a valid email address"}]}\<close> displays exactly that
  string.  The loading flag is off when \<^verbatim>\<open>onSubmit\<close> completes, whatever happened.
\<close>

theorem onSubmit_error_display:
  "loading (fst (snd (onSubmit env net w f))) = False
   \<and> (fst (login env net w (email f) (password f) (role f)) = Inl err \<longrightarrow>
        (case get_prop (data err) ''detail'' of
           JArr ds \<Rightarrow>
             (case those (map to_string (filter truthy (map (\<lambda>d. get_prop d ''msg'') ds))) of
                Some ss \<Rightarrow>
                  error (fst (snd (onSubmit env net w f))) = join_strings '', '' ss
                  \<and> fst (onSubmit env net w f) = None
              | None \<Rightarrow>
                  error (fst (snd (onSubmit env net w f))) = []
                  \<and> fst (onSubmit env net w f) \<noteq> None)
         | _ \<Rightarrow>
             error (fst (snd (onSubmit env net w f))) =
               (if message err \<noteq> [] then message err else ''Login failed'')
             \<and> fst (onSubmit env net w f) = None))
   \<and> error (fst (snd (onSubmit env
        (Resolved \<lparr>res_status = 422, res_content_type = Some ''application/json'', res_text = txt,
           res_json = Inr (JObj [(''detail'',
             JArr [JObj [(''msg'', JStr ''value is not a valid email address'')]])])\<rparr>) w f)))
       = ''value is not a valid email address''"
proof -
  let ?body = "JObj [(''detail'', JArr [JObj [(''msg'', JStr ''value is not a valid email address'')]])]"
  let ?res = "\<lparr>res_status = 422, res_content_type = Some ''application/json'', res_text = txt,
           res_json = Inr ?body\<rparr>"
  let ?e = "\<lparr>message = ''Request failed with '' @ show_nat 422, status = Some 422, data = ?body\<rparr>"
  have "failure ?res ?body = ?e"
    by (simp add: failure_eq message_value_def)
  then have raised: "fst (login env (Resolved ?res) w (email f) (password f) (role f)) = Inl ?e"
    unfolding login_result by (simp add: read_data_def contentType_def res_ok_def)
  have shown: "catch_msg ?e = Some ''value is not a valid email address''"
    unfolding catch_msg_eq by simp
  have scenario:
    "error (fst (snd (onSubmit env (Resolved ?res) w f))) = ''value is not a valid email address''"
    using onSubmit_on_raise [OF raised] shown by simp
  have general: "(case get_prop (data err) ''detail'' of
           JArr ds \<Rightarrow>
             (case those (map to_string (filter truthy (map (\<lambda>d. get_prop d ''msg'') ds))) of
                Some ss \<Rightarrow>
                  error (fst (snd (onSubmit env net w f))) = join_strings '', '' ss
                  \<and> fst (onSubmit env net w f) = None
              | None \<Rightarrow>
                  error (fst (snd (onSubmit env net w f))) = []
                  \<and> fst (onSubmit env net w f) \<noteq> None)
         | _ \<Rightarrow>
             error (fst (snd (onSubmit env net w f))) =
               (if message err \<noteq> [] then message err else ''Login failed'')
             \<and> fst (onSubmit env net w f) = None)"
    if "fst (login env net w (email f) (password f) (role f)) = Inl err"
    using onSubmit_on_raise [OF that]
    by (simp add: catch_msg_eq split: jsval.split option.split)
  from onSubmit_loading general scenario show ?thesis by blast
qed

theorem onSubmit_error_display_witness:
  "fst (login None (Rejected \<lparr>message = ''Failed to fetch'', status = None, data = JUndefined\<rparr>)
          \<lparr>storage = Map.empty, writes = [], requests = [], timers = []\<rparr> ''a@b.com'' ''x'' ''patient'')
     = Inl \<lparr>message = ''Failed to fetch'', status = None, data = JUndefined\<rparr>
   \<and> error (fst (snd (onSubmit None
          (Rejected \<lparr>message = ''Failed to fetch'', status = None, data = JUndefined\<rparr>)
          \<lparr>storage = Map.empty, writes = [], requests = [], timers = []\<rparr>
          \<lparr>email = ''a@b.com'', password = ''x'', role = ''patient'', loading = False, error = [],
           message' = []\<rparr>))) = ''Failed to fetch''
   \<and> fst (login None
          (Resolved \<lparr>res_status = 422, res_content_type = Some ''application/json'', res_text = [],
             res_json = Inr (JObj [(''detail'',
               JArr [JObj [(''msg'', JStr ''field required'')], JObj [(''loc'', JStr ''body'')],
                     JObj [(''msg'', JStr ''bad role'')]])])\<rparr>)
          \<lparr>storage = Map.empty, writes = [], requests = [], timers = []\<rparr> ''a@b.com'' ''x'' ''patient'')
     = Inl \<lparr>message = ''Request failed with 422'', status = Some 422,
            data = JObj [(''detail'',
               JArr [JObj [(''msg'', JStr ''field required'')], JObj [(''loc'', JStr ''body'')],
                     JObj [(''msg'', JStr ''bad role'')]])]\<rparr>
   \<and> error (fst (snd (onSubmit None
          (Resolved \<lparr>res_status = 422, res_content_type = Some ''application/json'', res_text = [],
             res_json = Inr (JObj [(''detail'',
               JArr [JObj [(''msg'', JStr ''field required'')], JObj [(''loc'', JStr ''body'')],
                     JObj [(''msg'', JStr ''bad role'')]])])\<rparr>)
          \<lparr>storage = Map.empty, writes = [], requests = [], timers = []\<rparr>
          \<lparr>email = ''a@b.com'', password = ''x'', role = ''patient'', loading = False, error = [],
           message' = []\<rparr>))) = ''field required, bad role''"
proof -
  let ?w = "\<lparr>storage = Map.empty, writes = [], requests = [], timers = []\<rparr>"
  let ?f = "\<lparr>email = ''a@b.com'', password = ''x'', role = ''patient'', loading = False, error = [],
           message' = []\<rparr>"
  let ?e1 = "\<lparr>message = ''Failed to fetch'', status = None, data = JUndefined\<rparr>"
  let ?d = "JObj [(''detail'',
               JArr [JObj [(''msg'', JStr ''field required'')], JObj [(''loc'', JStr ''body'')],
                     JObj [(''msg'', JStr ''bad role'')]])]"
  let ?res = "\<lparr>res_status = 422, res_content_type = Some ''application/json'', res_text = [],
             res_json = Inr ?d\<rparr>"
  let ?e2 = "\<lparr>message = ''Request failed with 422'', status = Some 422, data = ?d\<rparr>"
  have l1: "fst (login None (Rejected ?e1) ?w ''a@b.com'' ''x'' ''patient'') = Inl ?e1"
    unfolding login_result by simp
  have l2: "fst (login None (Resolved ?res) ?w ''a@b.com'' ''x'' ''patient'') = Inl ?e2"
    unfolding login_result
    by (simp add: read_data_def contentType_def res_ok_def failure_eq message_value_def show_nat_422)
  show ?thesis
    using onSubmit_error_display [where env = None and net = "Rejected ?e1" and w = ?w and f = ?f and err = ?e1]
      onSubmit_error_display [where env = None and net = "Resolved ?res" and w = ?w and f = ?f and err = ?e2]
      l1 l2
    by simp
qed

end
